theory Spec2Isabelle
  imports Main "HOL-Library.AList"
begin

section \<open>Python values\<close>

text \<open>
  The values \<open>json.loads\<close> yields: \<open>None\<close>, booleans, integers, strings, lists and
  dictionaries with string keys. A dictionary is an association list in insertion order,
  read with \<open>map_of\<close>. JSON numbers with a fraction or an exponent (Python floats) are
  outside the model.
\<close>

datatype json =
    JNull
  | JBool bool
  | JInt int
  | JStr string
  | JList "json list"
  | JObj "(string \<times> json) list"

text \<open>
  Hashable Python objects as dictionary keys. \<open>True\<close> and \<open>1\<close> are the same key in
  Python, so both are \<open>KInt 1\<close>. A \<open>uuid.UUID\<close> object is a key of its own kind: it
  compares unequal to every string, also to its own text.
\<close>

datatype pykey = KNone | KInt int | KStr string | KUuid string

text \<open>
  Objects handed to \<open>json.dumps\<close>: JSON values, and the two kinds of object the program
  builds that \<open>json.dumps\<close> rejects (the result of \<open>uuid.uuid4()\<close>, carrying its text,
  and a \<open>dict.keys()\<close> view), possibly nested in lists and dictionaries.
\<close>

datatype pyval =
    PJson json
  | PUuid string
  | PDictKeys "pykey list"
  | PList "pyval list"
  | PDict "(string \<times> pyval) list"

datatype error =
    KeyError json
  | TypeError
  | ValueError
  | AttributeError
  | UnicodeDecodeError
  | JSONDecodeError
  | RecursionError
  | DataError
  | HandlerError nat

text \<open>\<open>raw[key]\<close>: KeyError on a dictionary without the key, TypeError on any other value.\<close>

fun getitem :: "json \<Rightarrow> string \<Rightarrow> error + json" where
  "getitem (JObj kvs) k = (case map_of kvs k of None \<Rightarrow> Inl (KeyError (JStr k)) | Some v \<Rightarrow> Inr v)"
| "getitem _ k = Inl TypeError"

text \<open>\<open>raw.get(key)\<close>: \<open>None\<close> for a missing key; only dictionaries have the method.\<close>

fun dict_get :: "json \<Rightarrow> string \<Rightarrow> error + json" where
  "dict_get (JObj kvs) k = (case map_of kvs k of None \<Rightarrow> Inr JNull | Some v \<Rightarrow> Inr v)"
| "dict_get _ k = Inl AttributeError"

text \<open>Using a decoded value as a dictionary key: lists and dictionaries are unhashable.\<close>

fun key_of :: "json \<Rightarrow> error + pykey" where
  "key_of JNull = Inr KNone"
| "key_of (JBool b) = Inr (KInt (if b then 1 else 0))"
| "key_of (JInt n) = Inr (KInt n)"
| "key_of (JStr s) = Inr (KStr s)"
| "key_of (JList _) = Inl TypeError"
| "key_of (JObj _) = Inl TypeError"

fun key_val :: "pykey \<Rightarrow> pyval" where
  "key_val KNone = PJson JNull"
| "key_val (KInt n) = PJson (JInt n)"
| "key_val (KStr s) = PJson (JStr s)"
| "key_val (KUuid u) = PUuid u"

text \<open>
  \<open>int(x)\<close> on a decoded value. Which strings Python's \<open>int\<close> accepts is a parameter
  (\<open>int_str\<close>); \<open>int(None)\<close>, \<open>int([..])\<close> and \<open>int({..})\<close> raise TypeError.
\<close>

fun py_int :: "(string \<Rightarrow> int option) \<Rightarrow> json \<Rightarrow> error + int" where
  "py_int int_str (JInt n) = Inr n"
| "py_int int_str (JBool b) = Inr (if b then 1 else 0)"
| "py_int int_str (JStr s) = (case int_str s of None \<Rightarrow> Inl ValueError | Some n \<Rightarrow> Inr n)"
| "py_int int_str JNull = Inl TypeError"
| "py_int int_str (JList _) = Inl TypeError"
| "py_int int_str (JObj _) = Inl TypeError"

text \<open>
  \<open>json.dumps\<close>. The text it writes is represented by the JSON value that text denotes,
  so that \<open>json.loads\<close> of the result is the result itself. It raises TypeError on an
  object that is not JSON serialisable, wherever it is nested.
\<close>

fun json_dumps :: "pyval \<Rightarrow> error + json"
  and json_dumps_list :: "pyval list \<Rightarrow> error + json list"
  and json_dumps_items :: "(string \<times> pyval) list \<Rightarrow> error + (string \<times> json) list"
where
  "json_dumps (PJson j) = Inr j"
| "json_dumps (PUuid u) = Inl TypeError"
| "json_dumps (PDictKeys ks) = Inl TypeError"
| "json_dumps (PList xs) =
     (case json_dumps_list xs of Inl e \<Rightarrow> Inl e | Inr js \<Rightarrow> Inr (JList js))"
| "json_dumps (PDict kvs) =
     (case json_dumps_items kvs of Inl e \<Rightarrow> Inl e | Inr js \<Rightarrow> Inr (JObj js))"
| "json_dumps_list [] = Inr []"
| "json_dumps_list (x # xs) =
     (case json_dumps x of Inl e \<Rightarrow> Inl e
      | Inr j \<Rightarrow> (case json_dumps_list xs of Inl e \<Rightarrow> Inl e | Inr js \<Rightarrow> Inr (j # js)))"
| "json_dumps_items [] = Inr []"
| "json_dumps_items (kv # kvs) =
     (case json_dumps (snd kv) of Inl e \<Rightarrow> Inl e
      | Inr j \<Rightarrow>
          (case json_dumps_items kvs of Inl e \<Rightarrow> Inl e | Inr js \<Rightarrow> Inr ((fst kv, j) # js)))"

section \<open>Envelopes (message.py)\<close>

text \<open>
  \<open>Message\<close> and its subclasses. \<open>Report\<close> and \<open>Request\<close> add nothing to \<open>Message\<close>;
  \<open>Response\<close> extends it with \<open>status\<close> and \<open>error\<close>.
\<close>

record message =
  m_id :: json
  m_origin :: json
  m_topic :: json
  m_name :: json
  m_data :: json

record response = message +
  r_status :: int
  r_error :: json

datatype envelope = Report message | Request message | Response response

text \<open>\<open>Message.__init__\<close>: five subscriptions, in this order, each raising KeyError.\<close>

definition Message_init :: "json \<Rightarrow> error + message" where
  "Message_init raw_response =
     (case getitem raw_response ''id'' of Inl e \<Rightarrow> Inl e | Inr i \<Rightarrow>
     (case getitem raw_response ''origin'' of Inl e \<Rightarrow> Inl e | Inr orig \<Rightarrow>
     (case getitem raw_response ''topic'' of Inl e \<Rightarrow> Inl e | Inr t \<Rightarrow>
     (case getitem raw_response ''name'' of Inl e \<Rightarrow> Inl e | Inr n \<Rightarrow>
     (case getitem raw_response ''data'' of Inl e \<Rightarrow> Inl e | Inr d \<Rightarrow>
        Inr \<lparr>m_id = i, m_origin = orig, m_topic = t, m_name = n, m_data = d\<rparr>)))))"

text \<open>\<open>Response.__init__\<close>: the base constructor, then \<open>int(raw["status"])\<close> and \<open>raw.get("error")\<close>.\<close>

definition Response_init :: "(string \<Rightarrow> int option) \<Rightarrow> json \<Rightarrow> error + response" where
  "Response_init int_str raw_response =
     (case Message_init raw_response of Inl e \<Rightarrow> Inl e | Inr m \<Rightarrow>
     (case getitem raw_response ''status'' of Inl e \<Rightarrow> Inl e | Inr st \<Rightarrow>
     (case py_int int_str st of Inl e \<Rightarrow> Inl e | Inr n \<Rightarrow>
     (case dict_get raw_response ''error'' of Inl e \<Rightarrow> Inl e | Inr err \<Rightarrow>
        Inr \<lparr>m_id = m_id m, m_origin = m_origin m, m_topic = m_topic m, m_name = m_name m,
             m_data = m_data m, r_status = n, r_error = err\<rparr>))))"

section \<open>The service (service\_base.py)\<close>

text \<open>
  A callable stored in a registry or in the table of awaited requests: the lambda
  \<open>lambda _: self.shutdown()\<close> installed by \<open>run\<close>, the bound method \<open>self.registered\<close>,
  or a callable supplied by the user.
\<close>

datatype callable = ShutdownLambda | RegisteredHook | UserHandler nat

text \<open>
  The fields of \<open>ServiceBase\<close>. \<open>redis_client\<close> is \<open>None\<close> until \<open>run\<close> creates the
  client; a client holds what has been published through it, oldest first, as pairs of
  channel and payload.
\<close>

record service =
  service_channel :: "string option"
  redis_host :: string
  redis_port :: int
  redis_client :: "(string \<times> json) list option"
  request_handlers :: "(pykey \<times> (pykey \<times> callable) list) list"
  report_handlers :: "(pykey \<times> (pykey \<times> callable) list) list"
  service_name :: string
  awaiting_requests :: "(pykey \<times> callable) list"

definition CONTROLLER_CHANEL :: string where
  "CONTROLLER_CHANEL = ''service:controller''"

definition ServiceBase_init :: service where
  "ServiceBase_init =
     \<lparr>service_channel = None, redis_host = ''localhost'', redis_port = 6379,
      redis_client = None, request_handlers = [], report_handlers = [],
      service_name = ''ServiceBase'', awaiting_requests = []\<rparr>"

text \<open>\<open>configure\<close>: the three optional entries of the config dictionary.\<close>

definition configure :: "string option \<Rightarrow> string option \<Rightarrow> int option \<Rightarrow> service \<Rightarrow> service" where
  "configure cfg_name cfg_host cfg_port s =
     (let s1 = (case cfg_name of None \<Rightarrow> s | Some n \<Rightarrow> s\<lparr>service_name := n\<rparr>);
          s2 = (case cfg_host of None \<Rightarrow> s1 | Some h \<Rightarrow> s1\<lparr>redis_host := h\<rparr>);
          s3 = (case cfg_port of None \<Rightarrow> s2 | Some p \<Rightarrow> s2\<lparr>redis_port := p\<rparr>)
      in s3\<lparr>service_channel := Some (''service:'' @ service_name s3)\<rparr>)"

text \<open>
  \<open>self._redis_client.publish(channel, json.dumps(obj))\<close>, in Python's evaluation order:
  the attribute lookup on the client (AttributeError on \<open>None\<close>), then \<open>json.dumps\<close>
  (TypeError), then the call, which the client refuses for a channel that is \<open>None\<close>.
\<close>

definition publish :: "string option \<Rightarrow> pyval \<Rightarrow> service \<Rightarrow> (error + unit) \<times> service" where
  "publish channel obj s =
     (case redis_client s of None \<Rightarrow> (Inl AttributeError, s) | Some sent \<Rightarrow>
     (case json_dumps obj of Inl e \<Rightarrow> (Inl e, s) | Inr payload \<Rightarrow>
     (case channel of None \<Rightarrow> (Inl DataError, s) | Some ch \<Rightarrow>
        (Inr (), s\<lparr>redis_client := Some (sent @ [(ch, payload)])\<rparr>))))"

definition report :: "string \<Rightarrow> string \<Rightarrow> pyval \<Rightarrow> service \<Rightarrow> (error + unit) \<times> service" where
  "report topic name payload s =
     (let report = [(''type'', PJson (JStr ''report'')),
                    (''topic'', PJson (JStr topic)),
                    (''name'', PJson (JStr name)),
                    (''origin'', PJson (JStr (service_name s))),
                    (''data'', payload)]
      in publish (Some CONTROLLER_CHANEL) (PDict report) s)"

text \<open>\<open>request\<close>; \<open>uuid4\<close> is the text of the object \<open>uuid.uuid4()\<close> returns.\<close>

definition request ::
  "string \<Rightarrow> string \<Rightarrow> string \<Rightarrow> callable \<Rightarrow> pyval \<Rightarrow> service \<Rightarrow> (error + unit) \<times> service" where
  "request uuid4 topic name handler payload s =
     (let request = [(''id'', PUuid uuid4),
                     (''type'', PJson (JStr ''report'')),
                     (''topic'', PJson (JStr topic)),
                     (''name'', PJson (JStr name)),
                     (''origin'', PJson (JStr (service_name s)))];
          request = (if payload \<noteq> PJson JNull
                     then AList.update ''data'' payload request else request);
          s1 = s\<lparr>awaiting_requests := AList.update (KUuid uuid4) handler (awaiting_requests s)\<rparr>
      in publish (Some CONTROLLER_CHANEL) (PDict request) s1)"

text \<open>\<open>_find_handler\<close>: \<open>topic not in handlers\<close> and \<open>.get(name)\<close> hash their argument.\<close>

definition find_handler ::
  "json \<Rightarrow> json \<Rightarrow> (pykey \<times> (pykey \<times> callable) list) list \<Rightarrow> error + callable option" where
  "find_handler topic name handlers =
     (case key_of topic of Inl e \<Rightarrow> Inl e | Inr kt \<Rightarrow>
     (case map_of handlers kt of None \<Rightarrow> Inr None | Some names \<Rightarrow>
     (case key_of name of Inl e \<Rightarrow> Inl e | Inr kn \<Rightarrow> Inr (map_of names kn))))"

definition register_handler :: "string \<Rightarrow> string \<Rightarrow> bool \<Rightarrow> callable \<Rightarrow> service \<Rightarrow> service" where
  "register_handler topic name is_request handler s =
     (let dest = (if is_request then request_handlers s else report_handlers s);
          dest1 = (case map_of dest (KStr topic) of
                     Some names \<Rightarrow>
                       AList.update (KStr topic) (AList.update (KStr name) handler names) dest
                   | None \<Rightarrow> AList.update (KStr topic) [(KStr name, handler)] dest)
      in if is_request then s\<lparr>request_handlers := dest1\<rparr> else s\<lparr>report_handlers := dest1\<rparr>)"

text \<open>
  \<open>_register_service\<close>. The comprehension over \<open>handlers.keys()\<close> that reads
  \<open>handlers[t]\<close> is a pass over the items of the dictionary.
\<close>

definition topic_names :: "(pykey \<times> (pykey \<times> callable) list) list \<Rightarrow> pyval" where
  "topic_names handlers =
     PList (map (\<lambda>item. PDict [(''topic'', key_val (fst item)),
                                (''names'', PDictKeys (map fst (snd item)))]) handlers)"

definition register_service :: "string \<Rightarrow> service \<Rightarrow> (error + unit) \<times> service" where
  "register_service uuid4 s =
     (let registration_data =
            PDict [(''name'', PJson (JStr (service_name s))),
                   (''channel'', PJson (case service_channel s of None \<Rightarrow> JNull | Some c \<Rightarrow> JStr c)),
                   (''requests'', topic_names (request_handlers s)),
                   (''reports'', topic_names (report_handlers s))]
      in request uuid4 ''system'' ''register'' RegisteredHook registration_data s)"

text \<open>
  \<open>run\<close>: create the client, subscribe \<open>_message_handler\<close> to the service's channel
  (the keyword expansion raises TypeError when the channel is \<open>None\<close>), install the
  shutdown handler, start the listener thread, register. The thread it returns is not
  part of the model.
\<close>

definition run :: "string \<Rightarrow> service \<Rightarrow> (error + unit) \<times> service" where
  "run uuid4 s =
     (let s1 = s\<lparr>redis_client := Some []\<rparr> in
      case service_channel s1 of None \<Rightarrow> (Inl TypeError, s1) | Some ch \<Rightarrow>
        register_service uuid4 (register_handler ''service'' ''shutdown'' False ShutdownLambda s1))"

section \<open>The dispatcher\<close>

text \<open>
  A handler is user code: called with an envelope, it may read and change the service
  (send reports and requests, register handlers) and either returns a value (\<open>None\<close>
  is \<open>JNull\<close>) or raises. What each callable does is a parameter of the dispatcher; a
  handler that returns an object \<open>json.dumps\<close> rejects is outside the model.

  The dispatcher's own calls are recorded beside the service, in call order, where no
  handler can reach them.
\<close>

type_synonym behaviour = "callable \<Rightarrow> envelope \<Rightarrow> service \<Rightarrow> (error + json) \<times> service"

record world =
  svc :: service
  calls :: "(callable \<times> envelope) list"

definition invoke :: "behaviour \<Rightarrow> callable \<Rightarrow> envelope \<Rightarrow> world \<Rightarrow> (error + json) \<times> world" where
  "invoke beh handler arg w =
     (fst (beh handler arg (svc w)),
      \<lparr>svc = snd (beh handler arg (svc w)), calls = calls w @ [(handler, arg)]\<rparr>)"

definition handle_report :: "behaviour \<Rightarrow> message \<Rightarrow> world \<Rightarrow> (error + unit) \<times> world" where
  "handle_report beh rep w =
     (case find_handler (m_topic rep) (m_name rep) (report_handlers (svc w)) of
        Inl e \<Rightarrow> (Inl e, w)
      | Inr None \<Rightarrow> (Inr (), w)
      | Inr (Some handler) \<Rightarrow>
          (case invoke beh handler (Report rep) w of
             (Inl e, w1) \<Rightarrow> (Inl e, w1)
           | (Inr _, w1) \<Rightarrow> (Inr (), w1)))"

definition handle_request ::
  "behaviour \<Rightarrow> message \<Rightarrow> world \<Rightarrow> (error + (string \<times> pyval) list option) \<times> world" where
  "handle_request beh req w =
     (case find_handler (m_topic req) (m_name req) (request_handlers (svc w)) of
        Inl e \<Rightarrow> (Inl e, w)
      | Inr None \<Rightarrow> (Inr None, w)
      | Inr (Some handler) \<Rightarrow>
          (case invoke beh handler (Request req) w of
             (Inl e, w1) \<Rightarrow> (Inl e, w1)
           | (Inr payload, w1) \<Rightarrow>
               (let response = [(''id'', PJson (m_id req)),
                                (''type'', PJson (JStr ''response'')),
                                (''topic'', PJson (m_topic req)),
                                (''name'', PJson (m_name req)),
                                (''origin'', PJson (JStr (service_name (svc w1))))];
                    response = (if payload \<noteq> JNull
                                then AList.update ''data'' (PJson payload) response
                                else response)
                in (Inr (Some response), w1))))"

text \<open>
  A delivery from the broker: its \<open>type\<close>, and what
  \<open>json.loads(redis_message['data'].decode())\<close> evaluates to: the decoded value, or
  the exception that \<open>decode\<close> or \<open>json.loads\<close> raises on these bytes
  (UnicodeDecodeError, JSONDecodeError, ValueError, RecursionError).
\<close>

record redis_message =
  rm_type :: string
  rm_data :: "error + json"

definition message_handler ::
  "behaviour \<Rightarrow> (string \<Rightarrow> int option) \<Rightarrow> redis_message \<Rightarrow> world \<Rightarrow> (error + unit) \<times> world" where
  "message_handler beh int_str redis_message w =
     (if rm_type redis_message = ''message'' then
        (case rm_data redis_message of
           Inl e \<Rightarrow> (Inl e, w)
         | Inr message \<Rightarrow>
             (case getitem message ''type'' of
                Inl e \<Rightarrow> (Inl e, w)
              | Inr ty \<Rightarrow>
                  if ty = JStr ''request'' then
                    (case Message_init message of
                       Inl e \<Rightarrow> (Inl e, w)
                     | Inr req \<Rightarrow>
                         (case handle_request beh req w of
                            (Inl e, w1) \<Rightarrow> (Inl e, w1)
                          | (Inr None, w1) \<Rightarrow> (Inr (), w1)
                          | (Inr (Some resp), w1) \<Rightarrow>
                              (fst (publish (service_channel (svc w1)) (PDict resp) (svc w1)),
                               w1\<lparr>svc := snd (publish (service_channel (svc w1)) (PDict resp)
                                                  (svc w1))\<rparr>)))
                  else if ty = JStr ''report'' then
                    (case Message_init message of
                       Inl e \<Rightarrow> (Inl e, w)
                     | Inr rep \<Rightarrow> handle_report beh rep w)
                  else if ty = JStr ''response'' then
                    (case Response_init int_str message of
                       Inl e \<Rightarrow> (Inl e, w)
                     | Inr resp \<Rightarrow>
                         (case key_of (m_id resp) of
                            Inl e \<Rightarrow> (Inl e, w)
                          | Inr k \<Rightarrow>
                              (case map_of (awaiting_requests (svc w)) k of
                                 None \<Rightarrow> (Inr (), w)
                               | Some handler \<Rightarrow>
                                   (case invoke beh handler (Response resp) w of
                                      (Inl e, w1) \<Rightarrow> (Inl e, w1)
                                    | (Inr _, w1) \<Rightarrow>
                                        (case map_of (awaiting_requests (svc w1)) k of
                                           None \<Rightarrow> (Inl (KeyError (m_id resp)), w1)
                                         | Some _ \<Rightarrow>
                                             (Inr (),
                                              w1\<lparr>svc := (svc w1)\<lparr>awaiting_requests :=
                                                    AList.delete k (awaiting_requests (svc w1))\<rparr>\<rparr>))))))
                  else (Inr (), w)))
      else (Inr (), w))"

text \<open>
  The decoding steps of \<open>_message_handler\<close> on their own: \<open>json.loads\<close>, the read of
  \<open>type\<close>, and the constructor of the branch taken. A \<open>type\<close> that names none of the
  three kinds takes no branch: nothing is built and nothing is raised.
\<close>

definition decode :: "(string \<Rightarrow> int option) \<Rightarrow> error + json \<Rightarrow> error + envelope option" where
  "decode int_str data =
     (case data of
        Inl e \<Rightarrow> Inl e
      | Inr message \<Rightarrow>
          (case getitem message ''type'' of
             Inl e \<Rightarrow> Inl e
           | Inr ty \<Rightarrow>
               if ty = JStr ''request'' then
                 (case Message_init message of Inl e \<Rightarrow> Inl e | Inr m \<Rightarrow> Inr (Some (Request m)))
               else if ty = JStr ''report'' then
                 (case Message_init message of Inl e \<Rightarrow> Inl e | Inr m \<Rightarrow> Inr (Some (Report m)))
               else if ty = JStr ''response'' then
                 (case Response_init int_str message of
                    Inl e \<Rightarrow> Inl e | Inr r \<Rightarrow> Inr (Some (Response r)))
               else Inr None))"

section \<open>Concrete services and deliveries\<close>

text \<open>\<open>dest\<close> of \<open>_register_handler\<close>: the registry a kind of handler lives in.\<close>

definition dest :: "bool \<Rightarrow> service \<Rightarrow> (pykey \<times> (pykey \<times> callable) list) list" where
  "dest is_request s = (if is_request then request_handlers s else report_handlers s)"

text \<open>A delivery of a decoded payload on the subscribed channel.\<close>

definition delivery :: "json \<Rightarrow> redis_message" where
  "delivery raw = \<lparr>rm_type = ''message'', rm_data = Inr raw\<rparr>"

text \<open>
  A service configured under the name \<open>sample\<close>, and the same service after \<open>run\<close>
  (whatever \<open>run\<close> returned).
\<close>

definition sample_service :: service where
  "sample_service = configure (Some ''sample'') None None ServiceBase_init"

definition started :: "string \<Rightarrow> service" where
  "started uuid4 = snd (run uuid4 sample_service)"

text \<open>
  The handlers of \<open>SampleService\<close>: \<open>on_echo\<close> (here \<open>UserHandler 0\<close>) returns
  \<open>{'echo': request.data['message']}\<close>; every other callable returns \<open>None\<close>. None of
  them changes the service.
\<close>

definition sample_beh :: behaviour where
  "sample_beh handler arg s =
     (if handler = UserHandler 0 then
        (case arg of
           Request m \<Rightarrow>
             (case getitem (m_data m) ''message'' of
                Inl e \<Rightarrow> (Inl e, s)
              | Inr v \<Rightarrow> (Inr (JObj [(''echo'', v)]), s))
         | _ \<Rightarrow> (Inl TypeError, s))
      else (Inr JNull, s))"

definition no_int :: "string \<Rightarrow> int option" where
  "no_int s = None"

definition echo_request :: json where
  "echo_request =
     JObj [(''id'', JStr ''r-1''), (''type'', JStr ''request''), (''origin'', JStr ''controller''),
           (''topic'', JStr ''sample''), (''name'', JStr ''echo''),
           (''data'', JObj [(''message'', JStr ''hi'')])]"

definition shutdown_request :: json where
  "shutdown_request =
     JObj [(''id'', JStr ''r-2''), (''type'', JStr ''request''), (''origin'', JStr ''controller''),
           (''topic'', JStr ''service''), (''name'', JStr ''shutdown''), (''data'', JNull)]"

definition shutdown_report :: json where
  "shutdown_report =
     JObj [(''id'', JStr ''r-2''), (''type'', JStr ''report''), (''origin'', JStr ''controller''),
           (''topic'', JStr ''service''), (''name'', JStr ''shutdown''), (''data'', JNull)]"

text \<open>A Response as \<S>3 of the specification describes it, for a given correlation id.\<close>

definition random_response :: "json \<Rightarrow> json" where
  "random_response i =
     JObj [(''id'', i), (''type'', JStr ''response''), (''origin'', JStr ''controller''),
           (''topic'', JStr ''system''), (''name'', JStr ''get_random_number''),
           (''data'', JObj [(''value'', JInt 42)]), (''status'', JInt 0)]"

definition unknown_request :: json where
  "unknown_request =
     JObj [(''id'', JStr ''r-3''), (''type'', JStr ''request''), (''origin'', JStr ''controller''),
           (''topic'', JStr ''sample''), (''name'', JStr ''missing''), (''data'', JNull)]"

text \<open>The sample service with \<open>on_echo\<close> registered for requests, started.\<close>

definition echo_service :: service where
  "echo_service = snd (run ''u-0'' (register_handler ''sample'' ''echo'' True (UserHandler 0) sample_service))"

text \<open>
  Scenario B of the specification on a started service: \<open>request\<close> to (\<open>system\<close>,
  \<open>get_random_number\<close>) with callback \<open>C\<close> and no payload; the service afterwards.
\<close>

definition awaiting_random :: "string \<Rightarrow> string \<Rightarrow> callable \<Rightarrow> service" where
  "awaiting_random uuid0 uuid4 C =
     snd (request uuid4 ''system'' ''get_random_number'' C (PJson JNull) (started uuid0))"

text \<open>Payloads that lack a field, and one of a kind the dispatcher does not know.\<close>

definition report_without_id :: json where
  "report_without_id =
     JObj [(''type'', JStr ''report''), (''origin'', JStr ''controller''),
           (''topic'', JStr ''system''), (''name'', JStr ''heartbeat''), (''data'', JNull)]"

definition request_without_data :: json where
  "request_without_data =
     JObj [(''id'', JStr ''r-4''), (''type'', JStr ''request''), (''origin'', JStr ''controller''),
           (''topic'', JStr ''sample''), (''name'', JStr ''echo'')]"

definition response_without_status :: json where
  "response_without_status =
     JObj [(''id'', JStr ''r-5''), (''type'', JStr ''response''), (''origin'', JStr ''controller''),
           (''topic'', JStr ''system''), (''name'', JStr ''get_random_number''),
           (''data'', JObj [(''value'', JInt 42)])]"

definition unknown_kind :: json where
  "unknown_kind =
     JObj [(''id'', JStr ''r-6''), (''type'', JStr ''ping''), (''origin'', JStr ''controller''),
           (''topic'', JStr ''system''), (''name'', JStr ''heartbeat''), (''data'', JNull)]"

definition request_without_origin :: json where
  "request_without_origin =
     JObj [(''id'', JStr ''r-7''), (''type'', JStr ''request''),
           (''topic'', JStr ''sample''), (''name'', JStr ''echo''), (''data'', JNull)]"

definition report_without_topic :: "(string \<times> json) list" where
  "report_without_topic =
     [(''id'', JStr ''r-8''), (''type'', JStr ''report''), (''origin'', JStr ''controller''),
      (''name'', JStr ''heartbeat''), (''data'', JNull)]"

section \<open>Decoding and dispatch\<close>

lemma decode_RequestD:
  "decode int_str d = Inr (Some (Request req)) \<Longrightarrow>
     \<exists>raw. d = Inr raw \<and> getitem raw ''type'' = Inr (JStr ''request'') \<and> Message_init raw = Inr req"
  by (cases d; cases "getitem (projr d) ''type''")
     (auto simp: decode_def split: sum.splits if_splits)

lemma decode_ReportD:
  "decode int_str d = Inr (Some (Report rep)) \<Longrightarrow>
     \<exists>raw. d = Inr raw \<and> getitem raw ''type'' = Inr (JStr ''report'') \<and> Message_init raw = Inr rep"
  by (cases d; cases "getitem (projr d) ''type''")
     (auto simp: decode_def split: sum.splits if_splits)

lemma decode_ResponseD:
  "decode int_str d = Inr (Some (Response resp)) \<Longrightarrow>
     \<exists>raw. d = Inr raw \<and> getitem raw ''type'' = Inr (JStr ''response'') \<and>
           Response_init int_str raw = Inr resp"
  by (cases d; cases "getitem (projr d) ''type''")
     (auto simp: decode_def split: sum.splits if_splits)

text \<open>A delivery whose kind is none of the three is ignored: nothing raised, nothing done.\<close>

lemma unknown_kind_ignored:
  "rm_type rm = ''message'' \<Longrightarrow> decode int_str (rm_data rm) = Inr None \<Longrightarrow>
     message_handler beh int_str rm w = (Inr (), w)"
  by (cases "rm_data rm"; cases "getitem (projr (rm_data rm)) ''type''")
     (auto simp: decode_def message_handler_def split: sum.splits if_splits)

text \<open>A delivery that is not of type \<open>message\<close> (a subscription notice) is ignored.\<close>

lemma control_message_ignored:
  "rm_type rm \<noteq> ''message'' \<Longrightarrow> message_handler beh int_str rm w = (Inr (), w)"
  by (simp add: message_handler_def)

lemma dispatch_Request:
  assumes "rm_type rm = ''message''"
    and "decode int_str (rm_data rm) = Inr (Some (Request req))"
  shows "message_handler beh int_str rm w =
     (case handle_request beh req w of
        (Inl e, w1) \<Rightarrow> (Inl e, w1)
      | (Inr None, w1) \<Rightarrow> (Inr (), w1)
      | (Inr (Some resp), w1) \<Rightarrow>
          (fst (publish (service_channel (svc w1)) (PDict resp) (svc w1)),
           w1\<lparr>svc := snd (publish (service_channel (svc w1)) (PDict resp) (svc w1))\<rparr>))"
  using decode_RequestD[OF assms(2)] assms(1)
  by (auto simp: message_handler_def)

lemma dispatch_Report:
  assumes "rm_type rm = ''message''"
    and "decode int_str (rm_data rm) = Inr (Some (Report rep))"
  shows "message_handler beh int_str rm w = handle_report beh rep w"
  using decode_ReportD[OF assms(2)] assms(1)
  by (auto simp: message_handler_def)

lemma dispatch_Response:
  assumes "rm_type rm = ''message''"
    and "decode int_str (rm_data rm) = Inr (Some (Response resp))"
  shows "message_handler beh int_str rm w =
     (case key_of (m_id resp) of
        Inl e \<Rightarrow> (Inl e, w)
      | Inr k \<Rightarrow>
          (case map_of (awaiting_requests (svc w)) k of
             None \<Rightarrow> (Inr (), w)
           | Some handler \<Rightarrow>
               (case invoke beh handler (Response resp) w of
                  (Inl e, w1) \<Rightarrow> (Inl e, w1)
                | (Inr _, w1) \<Rightarrow>
                    (case map_of (awaiting_requests (svc w1)) k of
                       None \<Rightarrow> (Inl (KeyError (m_id resp)), w1)
                     | Some _ \<Rightarrow>
                         (Inr (),
                          w1\<lparr>svc := (svc w1)\<lparr>awaiting_requests :=
                                AList.delete k (awaiting_requests (svc w1))\<rparr>\<rparr>)))))"
  using decode_ResponseD[OF assms(2)] assms(1)
  by (auto simp: message_handler_def)

section \<open>Sending\<close>

text \<open>
  \<open>request\<close> never publishes: it stores the callback under the \<open>UUID\<close> object, and
  then \<open>json.dumps\<close> rejects that object (or the client is missing).
\<close>

lemma request_raises:
  "request uuid4 topic name handler payload s =
     (Inl (if redis_client s = None then AttributeError else TypeError),
      s\<lparr>awaiting_requests := AList.update (KUuid uuid4) handler (awaiting_requests s)\<rparr>)"
  by (auto simp: request_def publish_def Let_def split: option.splits)

lemma run_state:
  "service_channel s = Some ch \<Longrightarrow>
   run uuid4 s =
     (Inl TypeError,
      (register_handler ''service'' ''shutdown'' False ShutdownLambda (s\<lparr>redis_client := Some []\<rparr>))
        \<lparr>awaiting_requests := AList.update (KUuid uuid4) RegisteredHook (awaiting_requests s)\<rparr>)"
  by (simp add: run_def register_service_def request_raises register_handler_def Let_def)

lemma started_eq:
  "started uuid4 =
     \<lparr>service_channel = Some ''service:sample'', redis_host = ''localhost'', redis_port = 6379,
      redis_client = Some [], request_handlers = [],
      report_handlers = [(KStr ''service'', [(KStr ''shutdown'', ShutdownLambda)])],
      service_name = ''sample'', awaiting_requests = [(KUuid uuid4, RegisteredHook)]\<rparr>"
  by (simp add: started_def sample_service_def configure_def ServiceBase_init_def run_state
      register_handler_def Let_def)

lemma echo_service_eq:
  "echo_service =
     \<lparr>service_channel = Some ''service:sample'', redis_host = ''localhost'', redis_port = 6379,
      redis_client = Some [],
      request_handlers = [(KStr ''sample'', [(KStr ''echo'', UserHandler 0)])],
      report_handlers = [(KStr ''service'', [(KStr ''shutdown'', ShutdownLambda)])],
      service_name = ''sample'', awaiting_requests = [(KUuid ''u-0'', RegisteredHook)]\<rparr>"
  by (simp add: echo_service_def sample_service_def configure_def ServiceBase_init_def run_state
      register_handler_def Let_def)

lemma awaiting_random_eq:
  "awaiting_random uuid0 uuid4 C =
     (started uuid0)\<lparr>awaiting_requests :=
        AList.update (KUuid uuid4) C [(KUuid uuid0, RegisteredHook)]\<rparr>"
  by (simp add: awaiting_random_def request_raises started_eq)

text \<open>A decoded id is never the key a \<open>UUID\<close> object is.\<close>

lemma key_of_not_uuid: "key_of i \<noteq> Inr (KUuid u)"
  by (cases i) auto

section \<open>The handler registry\<close>

text \<open>
  C9: registering two handlers for the same (topic, name, kind), one after the other,
  leaves only the second reachable: lookup of that key in the registry of that kind
  returns the second handler, and the service is the one in which only the second was
  ever registered, so the first has left no trace.
\<close>

theorem C9_last_registration_wins:
  "find_handler (JStr topic) (JStr name)
     (dest is_request
        (register_handler topic name is_request h2
           (register_handler topic name is_request h1 s))) = Inr (Some h2)
   \<and> register_handler topic name is_request h2 (register_handler topic name is_request h1 s)
       = register_handler topic name is_request h2 s"
  by (cases is_request)
     (auto simp: register_handler_def find_handler_def dest_def Let_def update_conv'
           split: option.splits)

section \<open>Requests\<close>

text \<open>
  What the dispatcher does with a Request that has a handler which returns: one call of
  the handler, then one publish on the service's channel, of a dictionary that has
  \<open>data\<close> only when the handler returned something other than \<open>None\<close>.
\<close>

lemma handled_request_reply:
  assumes "rm_type rm = ''message''"
    and "decode int_str (rm_data rm) = Inr (Some (Request req))"
    and "find_handler (m_topic req) (m_name req) (request_handlers (svc w)) = Inr (Some h)"
    and "beh h (Request req) (svc w) = (Inr payload, s1)"
    and "redis_client s1 = Some sent"
    and "service_channel s1 = Some ch"
  shows "message_handler beh int_str rm w =
     (Inr (),
      \<lparr>svc = s1\<lparr>redis_client := Some (sent @
          [(ch, JObj ([(''id'', m_id req), (''type'', JStr ''response''),
                       (''topic'', m_topic req), (''name'', m_name req),
                       (''origin'', JStr (service_name s1))]
                      @ (if payload \<noteq> JNull then [(''data'', payload)] else [])))])\<rparr>,
       calls = calls w @ [(h, Request req)]\<rparr>)"
  using assms(3-6)
  by (simp add: dispatch_Request[OF assms(1,2)] handle_request_def invoke_def publish_def
      Let_def)

text \<open>\<open>_find_handler\<close> read off the registry: the entry of the topic, then of the name.\<close>

lemma find_handler_registered:
  assumes "key_of topic = Inr kt"
    and "map_of handlers kt = Some names"
    and "key_of name = Inr kn"
  shows "find_handler topic name handlers = Inr (map_of names kn)"
  using assms by (simp add: find_handler_def)

text \<open>
  A Request that carries all five fields, for a (topic, name) under which the registry of
  request handlers holds \<open>h\<close>, where \<open>h\<close> returns a payload other than \<open>None\<close>, on
  a started service: \<open>h\<close> is called once and exactly one message is published, on the
  service's own channel, a Response that reuses the Request's \<open>id\<close>, \<open>topic\<close> and
  \<open>name\<close>, with \<open>origin\<close> the service's name and \<open>data\<close> the payload.
\<close>

lemma registered_request_reply:
  assumes "rm_type rm = ''message''"
    and "decode int_str (rm_data rm) = Inr (Some (Request req))"
    and "key_of (m_topic req) = Inr kt"
    and "map_of (request_handlers (svc w)) kt = Some names"
    and "key_of (m_name req) = Inr kn"
    and "map_of names kn = Some h"
    and "beh h (Request req) (svc w) = (Inr payload, s1)"
    and "payload \<noteq> JNull"
    and "redis_client s1 = Some sent"
    and "service_channel s1 = Some ch"
  shows "message_handler beh int_str rm w =
     (Inr (),
      \<lparr>svc = s1\<lparr>redis_client := Some (sent @
          [(ch, JObj [(''id'', m_id req), (''type'', JStr ''response''),
                      (''topic'', m_topic req), (''name'', m_name req),
                      (''origin'', JStr (service_name s1)), (''data'', payload)])])\<rparr>,
       calls = calls w @ [(h, Request req)]\<rparr>)"
proof -
  have found: "find_handler (m_topic req) (m_name req) (request_handlers (svc w)) = Inr (Some h)"
    using find_handler_registered[OF assms(3,4,5)] assms(6) by simp
  show ?thesis
    using handled_request_reply[where beh = beh, OF assms(1,2) found assms(7,9,10)] assms(8)
    by simp
qed

text \<open>Scenario A of the specification, on the sample service.\<close>

lemma echo_request_reply:
  "message_handler sample_beh no_int (delivery echo_request) \<lparr>svc = echo_service, calls = []\<rparr> =
     (Inr (),
      \<lparr>svc = echo_service\<lparr>redis_client := Some
          [(''service:sample'',
            JObj [(''id'', JStr ''r-1''), (''type'', JStr ''response''),
                  (''topic'', JStr ''sample''), (''name'', JStr ''echo''),
                  (''origin'', JStr ''sample''),
                  (''data'', JObj [(''echo'', JStr ''hi'')])])]\<rparr>,
       calls = [(UserHandler 0,
                 Request \<lparr>m_id = JStr ''r-1'', m_origin = JStr ''controller'',
                          m_topic = JStr ''sample'', m_name = JStr ''echo'',
                          m_data = JObj [(''message'', JStr ''hi'')]\<rparr>)]\<rparr>)"
proof -
  let ?req = "\<lparr>m_id = JStr ''r-1'', m_origin = JStr ''controller'', m_topic = JStr ''sample'',
               m_name = JStr ''echo'', m_data = JObj [(''message'', JStr ''hi'')]\<rparr>"
  let ?w = "\<lparr>svc = echo_service, calls = []\<rparr>"
  have 1: "rm_type (delivery echo_request) = ''message''"
    by (simp add: delivery_def)
  have 2: "decode no_int (rm_data (delivery echo_request)) = Inr (Some (Request ?req))"
    by (simp add: delivery_def echo_request_def decode_def Message_init_def)
  have 3: "key_of (m_topic ?req) = Inr (KStr ''sample'')"
    by simp
  have 4: "map_of (request_handlers (svc ?w)) (KStr ''sample'') = Some [(KStr ''echo'', UserHandler 0)]"
    by (simp add: echo_service_eq)
  have 5: "key_of (m_name ?req) = Inr (KStr ''echo'')"
    by simp
  have 6: "map_of [(KStr ''echo'', UserHandler 0)] (KStr ''echo'') = Some (UserHandler 0)"
    by simp
  have 7: "sample_beh (UserHandler 0) (Request ?req) (svc ?w)
             = (Inr (JObj [(''echo'', JStr ''hi'')]), echo_service)"
    by (simp add: sample_beh_def)
  have 8: "JObj [(''echo'', JStr ''hi'')] \<noteq> JNull"
    by simp
  have 9: "redis_client echo_service = Some []"
    by (simp add: echo_service_eq)
  have 10: "service_channel echo_service = Some ''service:sample''"
    by (simp add: echo_service_eq)
  show ?thesis
    using registered_request_reply[where beh = sample_beh, OF 1 2 3 4 5 6 7 8 9 10]
    by (simp add: echo_service_eq)
qed

text \<open>
  C2: a Request without a \<open>data\<close> entry, for the (topic, name) under which \<open>on_echo\<close>
  is registered among the request handlers of the started sample service. Whatever the
  handlers would return, \<open>Request(message)\<close> raises KeyError for \<open>data\<close> before any
  lookup: no handler is called, nothing is published, the world is as it was.
\<close>

theorem C2_request_without_data_raises:
  "map_of (request_handlers echo_service) (KStr ''sample'') = Some [(KStr ''echo'', UserHandler 0)]
   \<and> find_handler (JStr ''sample'') (JStr ''echo'') (request_handlers echo_service)
       = Inr (Some (UserHandler 0))
   \<and> message_handler beh int_str (delivery request_without_data) \<lparr>svc = echo_service, calls = cs\<rparr>
       = (Inl (KeyError (JStr ''data'')), \<lparr>svc = echo_service, calls = cs\<rparr>)"
  by (simp add: echo_service_eq find_handler_def message_handler_def delivery_def
      request_without_data_def Message_init_def)

text \<open>
  C7: a Request whose (topic, name) has no registered request handler leaves everything
  as it was: nothing is published, nothing is called, no state changes. The lookup
  itself raises TypeError when the topic or the name is a list or a dictionary;
  otherwise the dispatcher returns normally.
\<close>

theorem C7_unregistered_request_silent:
  assumes "rm_type rm = ''message''"
    and "decode int_str (rm_data rm) = Inr (Some (Request req))"
    and "\<forall>h. find_handler (m_topic req) (m_name req) (request_handlers (svc w)) \<noteq> Inr (Some h)"
  shows "message_handler beh int_str rm w =
     (case find_handler (m_topic req) (m_name req) (request_handlers (svc w)) of
        Inl e \<Rightarrow> Inl e | Inr _ \<Rightarrow> Inr (), w)"
  using assms(3)
  by (auto simp: dispatch_Request[OF assms(1,2)] handle_request_def
           split: sum.splits option.splits)

theorem C7_unregistered_request_silent_witness:
  "message_handler sample_beh no_int (delivery unknown_request) \<lparr>svc = echo_service, calls = []\<rparr>
     = (Inr (), \<lparr>svc = echo_service, calls = []\<rparr>)"
proof -
  let ?req = "\<lparr>m_id = JStr ''r-3'', m_origin = JStr ''controller'', m_topic = JStr ''sample'',
               m_name = JStr ''missing'', m_data = JNull\<rparr>"
  let ?w = "\<lparr>svc = echo_service, calls = []\<rparr>"
  have 1: "rm_type (delivery unknown_request) = ''message''"
    by (simp add: delivery_def)
  have 2: "decode no_int (rm_data (delivery unknown_request)) = Inr (Some (Request ?req))"
    by (simp add: delivery_def unknown_request_def decode_def Message_init_def)
  have 3: "find_handler (m_topic ?req) (m_name ?req) (request_handlers (svc ?w)) = Inr None"
    by (simp add: find_handler_def echo_service_eq)
  have 4: "\<forall>h. find_handler (m_topic ?req) (m_name ?req) (request_handlers (svc ?w))
                 \<noteq> Inr (Some h)"
    using 3 by simp
  show ?thesis
    using C7_unregistered_request_silent[OF 1 2 4, of sample_beh] 3 by simp
qed

text \<open>
  C1: on a started service a Request for (\<open>service\<close>, \<open>shutdown\<close>) calls nothing and
  publishes nothing, whatever the handlers do: \<open>run\<close> has installed the shutdown
  lambda among the report handlers, and a Request is looked up among the request
  handlers.
\<close>

theorem C1_shutdown_request_calls_nothing:
  "message_handler beh int_str (delivery shutdown_request) \<lparr>svc = started uuid4, calls = cs\<rparr>
     = (Inr (), \<lparr>svc = started uuid4, calls = cs\<rparr>)"
  by (simp add: message_handler_def delivery_def shutdown_request_def Message_init_def
      handle_request_def find_handler_def started_eq)

text \<open>The same payload sent as a Report does reach the shutdown lambda, once.\<close>

lemma shutdown_report_calls_hook:
  "calls (snd (message_handler beh int_str (delivery shutdown_report)
                 \<lparr>svc = started uuid4, calls = []\<rparr>))
     = [(ShutdownLambda,
         Report \<lparr>m_id = JStr ''r-2'', m_origin = JStr ''controller'', m_topic = JStr ''service'',
                 m_name = JStr ''shutdown'', m_data = JNull\<rparr>)]"
  by (simp add: message_handler_def delivery_def shutdown_report_def Message_init_def
      handle_report_def find_handler_def started_eq invoke_def split: sum.splits)

section \<open>Responses\<close>

text \<open>
  Lines 144 to 149 of \<open>_message_handler\<close> on a table that does hold the key of the
  Response's id: one call of the stored callback, then the entry is deleted.
\<close>

lemma response_resolves_pending:
  assumes "rm_type rm = ''message''"
    and "decode int_str (rm_data rm) = Inr (Some (Response resp))"
    and "key_of (m_id resp) = Inr k"
    and "map_of (awaiting_requests (svc w)) k = Some C"
    and "beh C (Response resp) (svc w) = (Inr v, s1)"
    and "map_of (awaiting_requests s1) k = Some C1"
  shows "message_handler beh int_str rm w =
     (Inr (),
      \<lparr>svc = s1\<lparr>awaiting_requests := AList.delete k (awaiting_requests s1)\<rparr>,
       calls = calls w @ [(C, Response resp)]\<rparr>)"
  using assms(3-6) by (simp add: dispatch_Response[OF assms(1,2)] invoke_def)

lemma decode_random_response:
  "decode int_str (Inr (random_response i)) =
     Inr (Some (Response \<lparr>m_id = i, m_origin = JStr ''controller'', m_topic = JStr ''system'',
                          m_name = JStr ''get_random_number'',
                          m_data = JObj [(''value'', JInt 42)], r_status = 0, r_error = JNull\<rparr>))"
  by (simp add: decode_def random_response_def Response_init_def Message_init_def)

text \<open>
  C3: Scenario B on a started service. \<open>request\<close> raises TypeError and publishes nothing;
  the callback is stored under the \<open>UUID\<close> object. A Response whose id is the text of
  that UUID calls nothing and leaves the entry in place, and so does a Response with any
  other id.
\<close>

theorem C3_response_never_reaches_callback:
  "fst (request uuid4 ''system'' ''get_random_number'' C (PJson JNull) (started uuid0))
     = Inl TypeError
   \<and> redis_client (awaiting_random uuid0 uuid4 C) = Some []
   \<and> map_of (awaiting_requests (awaiting_random uuid0 uuid4 C)) (KUuid uuid4) = Some C
   \<and> message_handler beh int_str (delivery (random_response (JStr uuid4)))
         \<lparr>svc = awaiting_random uuid0 uuid4 C, calls = []\<rparr>
       = (Inr (), \<lparr>svc = awaiting_random uuid0 uuid4 C, calls = []\<rparr>)
   \<and> snd (message_handler beh int_str (delivery (random_response i))
              \<lparr>svc = awaiting_random uuid0 uuid4 C, calls = []\<rparr>)
       = \<lparr>svc = awaiting_random uuid0 uuid4 C, calls = []\<rparr>"
proof -
  let ?w = "\<lparr>svc = awaiting_random uuid0 uuid4 C, calls = []\<rparr>"
  have sent: "fst (request uuid4 ''system'' ''get_random_number'' C (PJson JNull) (started uuid0))
                = Inl TypeError"
    by (simp add: request_raises started_eq)
  have client: "redis_client (awaiting_random uuid0 uuid4 C) = Some []"
    by (simp add: awaiting_random_eq started_eq)
  have entry: "map_of (awaiting_requests (awaiting_random uuid0 uuid4 C)) (KUuid uuid4) = Some C"
    by (simp add: awaiting_random_eq update_conv')
  have any: "snd (message_handler beh int_str (delivery (random_response j)) ?w) = ?w"
    and hashable: "key_of j = Inr k \<Longrightarrow>
        message_handler beh int_str (delivery (random_response j)) ?w = (Inr (), ?w)" for j k
  proof -
    have m: "rm_type (delivery (random_response j)) = ''message''"
      by (simp add: delivery_def)
    have d: "decode int_str (rm_data (delivery (random_response j))) =
       Inr (Some (Response \<lparr>m_id = j, m_origin = JStr ''controller'', m_topic = JStr ''system'',
                            m_name = JStr ''get_random_number'',
                            m_data = JObj [(''value'', JInt 42)], r_status = 0,
                            r_error = JNull\<rparr>))"
      by (simp add: delivery_def decode_random_response)
    have miss: "map_of (awaiting_requests (svc ?w)) k' = None" if "key_of j = Inr k'" for k'
      using that by (cases j) (auto simp: awaiting_random_eq update_conv')
    show "snd (message_handler beh int_str (delivery (random_response j)) ?w) = ?w"
    proof (cases "key_of j")
      case (Inl e)
      then show ?thesis
        by (simp only: dispatch_Response[OF m d]) simp
    next
      case (Inr k')
      with miss[OF Inr] show ?thesis
        by (simp only: dispatch_Response[OF m d]) simp
    qed
    show "message_handler beh int_str (delivery (random_response j)) ?w = (Inr (), ?w)"
      if "key_of j = Inr k"
      using that miss[OF that] by (simp only: dispatch_Response[OF m d]) simp
  qed
  have same: "message_handler beh int_str (delivery (random_response (JStr uuid4))) ?w
                = (Inr (), ?w)"
    by (rule hashable[of "JStr uuid4" "KStr uuid4"]) simp
  from sent client entry same any[of i] show ?thesis
    by blast
qed

text \<open>
  C8: a Response whose id is absent from the table of awaited requests changes nothing
  and calls nothing. An id that is a list or a dictionary cannot be a key: the lookup
  raises TypeError, and still nothing changes.
\<close>

theorem C8_unmatched_response_dropped:
  assumes "rm_type rm = ''message''"
    and "decode int_str (rm_data rm) = Inr (Some (Response resp))"
    and "\<forall>k. key_of (m_id resp) = Inr k \<longrightarrow> map_of (awaiting_requests (svc w)) k = None"
  shows "message_handler beh int_str rm w =
     (case key_of (m_id resp) of Inl e \<Rightarrow> Inl e | Inr _ \<Rightarrow> Inr (), w)"
  using assms(3) by (simp add: dispatch_Response[OF assms(1,2)] split: sum.splits)

theorem C8_unmatched_response_dropped_witness:
  "message_handler sample_beh no_int (delivery (random_response (JStr ''stale'')))
     \<lparr>svc = echo_service, calls = []\<rparr> = (Inr (), \<lparr>svc = echo_service, calls = []\<rparr>)"
proof -
  let ?resp = "\<lparr>m_id = JStr ''stale'', m_origin = JStr ''controller'', m_topic = JStr ''system'',
                m_name = JStr ''get_random_number'', m_data = JObj [(''value'', JInt 42)],
                r_status = 0, r_error = JNull\<rparr>"
  let ?w = "\<lparr>svc = echo_service, calls = []\<rparr>"
  have 1: "rm_type (delivery (random_response (JStr ''stale''))) = ''message''"
    by (simp add: delivery_def)
  have 2: "decode no_int (rm_data (delivery (random_response (JStr ''stale''))))
             = Inr (Some (Response ?resp))"
    by (simp add: delivery_def decode_random_response)
  have 3: "\<forall>k. key_of (m_id ?resp) = Inr k \<longrightarrow> map_of (awaiting_requests (svc ?w)) k = None"
    by (simp add: echo_service_eq)
  show ?thesis
    using C8_unmatched_response_dropped[OF 1 2 3, of sample_beh] by simp
qed

section \<open>Payloads that do not decode\<close>

text \<open>
  C6: when the payload of a delivery fails to decode, the dispatcher publishes nothing,
  calls nothing and changes no state, and the error of the decoding step is raised to
  the caller of the dispatch entry point.
\<close>

theorem C6_decode_error_propagates:
  assumes "rm_type rm = ''message''"
    and "decode int_str (rm_data rm) = Inl e"
  shows "message_handler beh int_str rm w = (Inl e, w)"
  using assms
  by (cases "rm_data rm"; cases "getitem (projr (rm_data rm)) ''type''")
     (auto simp: decode_def message_handler_def split: sum.splits if_splits)

theorem C6_decode_error_propagates_witness:
  "message_handler sample_beh no_int (delivery request_without_data)
     \<lparr>svc = echo_service, calls = []\<rparr>
     = (Inl (KeyError (JStr ''data'')), \<lparr>svc = echo_service, calls = []\<rparr>)"
proof -
  have 1: "rm_type (delivery request_without_data) = ''message''"
    by (simp add: delivery_def)
  have 2: "decode no_int (rm_data (delivery request_without_data)) = Inl (KeyError (JStr ''data''))"
    by (simp add: delivery_def request_without_data_def decode_def Message_init_def)
  show ?thesis
    by (rule C6_decode_error_propagates[OF 1 2])
qed

text \<open>
  The claim as the specification has it (no crash) fails: a Request without \<open>origin\<close>
  and a payload that is not JSON both make the entry point raise.
\<close>

theorem C6_dispatch_raises_counterexample:
  "fst (message_handler sample_beh no_int (delivery request_without_origin)
          \<lparr>svc = echo_service, calls = []\<rparr>) = Inl (KeyError (JStr ''origin''))
   \<and> fst (message_handler sample_beh no_int \<lparr>rm_type = ''message'', rm_data = Inl JSONDecodeError\<rparr>
          \<lparr>svc = echo_service, calls = []\<rparr>) = Inl JSONDecodeError"
  by (simp add: message_handler_def delivery_def request_without_origin_def Message_init_def)

section \<open>Decoding\<close>

text \<open>
  C4, as the code has it. For a payload that is a dictionary with a \<open>data\<close> entry (and,
  when it is a report, with an \<open>id\<close> entry), decoding raises exactly when \<open>type\<close> is
  missing, or the kind is one of the three and one of \<open>id\<close>, \<open>origin\<close>, \<open>topic\<close>,
  \<open>name\<close> is missing, or the kind is \<open>response\<close> and \<open>status\<close> is missing or is not
  accepted by \<open>int\<close>. A kind that is none of the three is not an error.
\<close>

theorem C4_decode_fails_iff:
  assumes "map_of kvs ''data'' \<noteq> None"
    and "map_of kvs ''type'' = Some (JStr ''report'') \<Longrightarrow> map_of kvs ''id'' \<noteq> None"
  shows "isl (decode int_str (Inr (JObj kvs))) \<longleftrightarrow>
           map_of kvs ''type'' = None
         \<or> (map_of kvs ''type'' \<in> {Some (JStr ''request''), Some (JStr ''report''),
                                     Some (JStr ''response'')}
            \<and> (map_of kvs ''id'' = None \<or> map_of kvs ''origin'' = None
               \<or> map_of kvs ''topic'' = None \<or> map_of kvs ''name'' = None))
         \<or> (map_of kvs ''type'' = Some (JStr ''response'')
            \<and> (case map_of kvs ''status'' of None \<Rightarrow> True | Some st \<Rightarrow> isl (py_int int_str st)))"
proof (cases "map_of kvs ''type''")
  case None
  then show ?thesis
    by (simp add: decode_def)
next
  case (Some ty)
  have header: "isl (Message_init (JObj kvs)) \<longleftrightarrow>
      map_of kvs ''id'' = None \<or> map_of kvs ''origin'' = None
      \<or> map_of kvs ''topic'' = None \<or> map_of kvs ''name'' = None"
    using assms(1) by (auto simp: Message_init_def split: option.splits)
  have resp: "isl (Response_init int_str (JObj kvs)) \<longleftrightarrow>
      isl (Message_init (JObj kvs))
      \<or> (case map_of kvs ''status'' of None \<Rightarrow> True | Some st \<Rightarrow> isl (py_int int_str st))"
    by (auto simp: Response_init_def split: option.splits sum.splits)
  have lift: "isl (case x of Inl e \<Rightarrow> Inl e | Inr m \<Rightarrow> Inr (f m)) = isl x"
    for x :: "error + 'm" and f :: "'m \<Rightarrow> envelope option"
    by (cases x) simp_all
  consider "ty = JStr ''request''" | "ty = JStr ''report''" | "ty = JStr ''response''"
    | "ty \<noteq> JStr ''request''" "ty \<noteq> JStr ''report''" "ty \<noteq> JStr ''response''"
    by blast
  then show ?thesis
  proof cases
    case 1
    with Some header show ?thesis
      by (simp add: decode_def lift)
  next
    case 2
    with Some header show ?thesis
      by (simp add: decode_def lift)
  next
    case 3
    with Some header resp show ?thesis
      by (simp add: decode_def lift)
  next
    case 4
    with Some show ?thesis
      by (simp add: decode_def)
  qed
qed

theorem C4_decode_fails_iff_witness:
  "isl (decode no_int (Inr (JObj report_without_topic)))"
proof -
  have 1: "map_of report_without_topic ''data'' \<noteq> None"
    by (simp add: report_without_topic_def)
  have 2: "map_of report_without_topic ''id'' \<noteq> None"
    by (simp add: report_without_topic_def)
  show ?thesis
    using C4_decode_fails_iff[OF 1 2, of no_int] by (simp add: report_without_topic_def)
qed

text \<open>
  The claim as the specification has it fails four ways: a report without \<open>id\<close> and a
  request without \<open>data\<close> do not decode, a response with the whole header and no
  \<open>status\<close> does not decode, and a payload of an unknown kind raises nothing.
\<close>

theorem C4_decode_counterexample:
  "decode no_int (Inr report_without_id) = Inl (KeyError (JStr ''id''))
   \<and> decode no_int (Inr request_without_data) = Inl (KeyError (JStr ''data''))
   \<and> decode no_int (Inr response_without_status) = Inl (KeyError (JStr ''status''))
   \<and> decode no_int (Inr unknown_kind) = Inr None"
  by (simp add: decode_def Message_init_def Response_init_def report_without_id_def
      request_without_data_def response_without_status_def unknown_kind_def)

section \<open>Round trip\<close>

text \<open>
  C5: what the service sends, its own decoder rejects. The payload \<open>report\<close> publishes
  has no \<open>id\<close>, which \<open>Report\<close> requires; \<open>request\<close> raises before it publishes
  anything. (For the Response built for a handled Request see C10.)
\<close>

theorem C5_sent_payloads_do_not_decode:
  "report topic name (PJson payload) (s\<lparr>redis_client := Some sent\<rparr>) =
     (Inr (),
      s\<lparr>redis_client := Some (sent @
          [(CONTROLLER_CHANEL,
            JObj [(''type'', JStr ''report''), (''topic'', JStr topic), (''name'', JStr name),
                  (''origin'', JStr (service_name s)), (''data'', payload)])])\<rparr>)
   \<and> decode int_str
         (Inr (JObj [(''type'', JStr ''report''), (''topic'', JStr topic), (''name'', JStr name),
                      (''origin'', JStr (service_name s)), (''data'', payload)]))
       = Inl (KeyError (JStr ''id''))
   \<and> request uuid4 topic name handler p (s\<lparr>redis_client := Some sent\<rparr>) =
       (Inl TypeError,
        s\<lparr>redis_client := Some sent,
          awaiting_requests := AList.update (KUuid uuid4) handler (awaiting_requests s)\<rparr>)"
  by (simp add: report_def publish_def request_raises decode_def Message_init_def)

text \<open>
  C10: the dictionary \<open>_handle_request\<close> builds for a handled Request has the keys
  \<open>id\<close>, \<open>type\<close>, \<open>topic\<close>, \<open>name\<close>, \<open>origin\<close> and, only when the handler returned
  something other than \<open>None\<close>, \<open>data\<close>; never \<open>status\<close> or \<open>error\<close>. \<open>json.dumps\<close>
  accepts it, and the decoder of this program rejects what it wrote: \<open>Response\<close> raises
  KeyError, for \<open>status\<close> or already for \<open>data\<close>.
\<close>

theorem C10_reply_has_no_status:
  assumes "find_handler (m_topic req) (m_name req) (request_handlers (svc w)) = Inr (Some h)"
    and "beh h (Request req) (svc w) = (Inr payload, s1)"
  shows "\<exists>resp wire.
           fst (handle_request beh req w) = Inr (Some resp)
         \<and> map fst resp = [''id'', ''type'', ''topic'', ''name'', ''origin'']
                           @ (if payload \<noteq> JNull then [''data''] else [])
         \<and> ''status'' \<notin> set (map fst resp) \<and> ''error'' \<notin> set (map fst resp)
         \<and> json_dumps (PDict resp) = Inr (JObj wire)
         \<and> map fst wire = map fst resp
         \<and> Response_init int_str (JObj wire)
             = Inl (KeyError (JStr (if payload \<noteq> JNull then ''status'' else ''data'')))
         \<and> decode int_str (Inr (JObj wire))
             = Inl (KeyError (JStr (if payload \<noteq> JNull then ''status'' else ''data'')))"
  using assms
  by (cases "payload = JNull")
     (simp_all add: handle_request_def invoke_def Let_def Response_init_def Message_init_def
        decode_def)

theorem C10_reply_has_no_status_witness:
  "\<exists>resp wire.
     fst (handle_request sample_beh
            \<lparr>m_id = JStr ''r-1'', m_origin = JStr ''controller'', m_topic = JStr ''sample'',
             m_name = JStr ''echo'', m_data = JObj [(''message'', JStr ''hi'')]\<rparr>
            \<lparr>svc = echo_service, calls = []\<rparr>) = Inr (Some resp)
   \<and> map fst resp = [''id'', ''type'', ''topic'', ''name'', ''origin'', ''data'']
   \<and> ''status'' \<notin> set (map fst resp) \<and> ''error'' \<notin> set (map fst resp)
   \<and> json_dumps (PDict resp) = Inr (JObj wire)
   \<and> map fst wire = map fst resp
   \<and> Response_init no_int (JObj wire) = Inl (KeyError (JStr ''status''))
   \<and> decode no_int (Inr (JObj wire)) = Inl (KeyError (JStr ''status''))"
proof -
  let ?req = "\<lparr>m_id = JStr ''r-1'', m_origin = JStr ''controller'', m_topic = JStr ''sample'',
               m_name = JStr ''echo'', m_data = JObj [(''message'', JStr ''hi'')]\<rparr>"
  let ?w = "\<lparr>svc = echo_service, calls = []\<rparr>"
  have 1: "find_handler (m_topic ?req) (m_name ?req) (request_handlers (svc ?w))
             = Inr (Some (UserHandler 0))"
    by (simp add: find_handler_def echo_service_eq)
  have 2: "sample_beh (UserHandler 0) (Request ?req) (svc ?w)
             = (Inr (JObj [(''echo'', JStr ''hi'')]), echo_service)"
    by (simp add: sample_beh_def)
  show ?thesis
    using C10_reply_has_no_status[where beh = sample_beh and int_str = no_int, OF 1 2]
    by simp
qed

end
